theory Spec2Isabelle
  imports Complex_Main "HOL-Library.AList"
begin

section \<open>JavaScript values and objects\<close>

text \<open>
  The handlers of \<^verbatim>\<open>packages/backend/api/v1/orgs.ts\<close> read properties of plain JavaScript
  objects (database rows, the parsed JSON body) and test them with the language's
  truthiness. A value is one of the primitives, a built-in function (named), or an object
  whose contents the handlers never inspect. Numbers that occur in the columns and
  bodies modelled here are integers.
\<close>

datatype jsval =
    Undefined
  | Null
  | Bool bool
  | Num int
  | Str string
  | NativeFn string
  | Obj

type_synonym jsobj = "(string \<times> jsval) list"

text \<open>\<^verbatim>\<open>!!v\<close>: the falsy values are undefined, null, false, 0 and the empty string.\<close>

fun js_truthy :: "jsval \<Rightarrow> bool" where
  "js_truthy Undefined = False"
| "js_truthy Null = False"
| "js_truthy (Bool b) = b"
| "js_truthy (Num n) = (n \<noteq> 0)"
| "js_truthy (Str s) = (s \<noteq> [])"
| "js_truthy (NativeFn f) = True"
| "js_truthy Obj = True"

text \<open>\<^verbatim>\<open>a || b\<close>\<close>

definition js_or :: "jsval \<Rightarrow> jsval \<Rightarrow> jsval" where
  "js_or a b = (if js_truthy a then a else b)"

text \<open>
  The function-valued properties every plain object inherits from
  \<^verbatim>\<open>Object.prototype\<close>; the accessor \<^verbatim>\<open>__proto__\<close> yields the prototype object itself.
\<close>

definition object_prototype_functions :: "string list" where
  "object_prototype_functions =
     [''constructor'', ''hasOwnProperty'', ''isPrototypeOf'', ''propertyIsEnumerable'',
      ''toLocaleString'', ''toString'', ''valueOf'',
      ''__defineGetter__'', ''__defineSetter__'', ''__lookupGetter__'', ''__lookupSetter__'']"

definition inherited_property :: "string \<Rightarrow> jsval" where
  "inherited_property k =
     (if k \<in> set object_prototype_functions then
        NativeFn (if k = ''constructor'' then ''Object'' else k)
      else if k = ''__proto__'' then Obj
      else Undefined)"

text \<open>
  \<^verbatim>\<open>obj[k]\<close> on a plain object: an own property if there is one, else what the
  prototype chain gives, else undefined.
\<close>

definition js_get :: "jsobj \<Rightarrow> string \<Rightarrow> jsval" where
  "js_get obj k = (case map_of obj k of Some v \<Rightarrow> v | None \<Rightarrow> inherited_property k)"

text \<open>\<^verbatim>\<open>obj[k] = v\<close>\<close>

definition js_set :: "jsobj \<Rightarrow> string \<Rightarrow> jsval \<Rightarrow> jsobj" where
  "js_set obj k v = AList.update k v obj"

text \<open>Decimal digits of a natural number, for \<^verbatim>\<open>String(n)\<close>.\<close>

fun show_nat :: "nat \<Rightarrow> string" where
  "show_nat n =
     (if n < 10 then [char_of (48 + n)]
      else show_nat (n div 10) @ [char_of (48 + n mod 10)])"

text \<open>
  \<^verbatim>\<open>String(v)\<close>, the conversion \<^verbatim>\<open>String.prototype.replace\<close> applies to what a replacer
  function returns. A built-in function prints as V8 prints it.
\<close>

fun js_to_string :: "jsval \<Rightarrow> string" where
  "js_to_string Undefined = ''undefined''"
| "js_to_string Null = ''null''"
| "js_to_string (Bool b) = (if b then ''true'' else ''false'')"
| "js_to_string (Num n) = (if n < 0 then ''-'' @ show_nat (nat (- n)) else show_nat (nat n))"
| "js_to_string (Str s) = s"
| "js_to_string (NativeFn f) = ''function '' @ f @ ''() { [native code] }''"
| "js_to_string Obj = ''[object Object]''"

text \<open>
  \<^verbatim>\<open>v <= 0\<close>: the operand is converted to a number and the comparison is false for \<open>NaN\<close>.
  Of strings, the empty string (0) and signed decimal integer literals are given their
  value; the columns compared here are integer columns.
\<close>

fun digit_value :: "char \<Rightarrow> nat option" where
  "digit_value c =
     (let n = (of_char c :: nat) in if 48 \<le> n \<and> n \<le> 57 then Some (n - 48) else None)"

fun digits_value :: "nat \<Rightarrow> string \<Rightarrow> nat option" where
  "digits_value acc [] = Some acc"
| "digits_value acc (c # cs) =
     (case digit_value c of None \<Rightarrow> None | Some d \<Rightarrow> digits_value (10 * acc + d) cs)"

fun string_to_number :: "string \<Rightarrow> int option" where
  "string_to_number [] = Some 0"
| "string_to_number (c # cs) =
     (if c = CHR ''-'' \<and> cs \<noteq> [] then map_option (\<lambda>n. - int n) (digits_value 0 cs)
      else if c = CHR ''+'' \<and> cs \<noteq> [] then map_option int (digits_value 0 cs)
      else map_option int (digits_value 0 (c # cs)))"

fun js_to_number :: "jsval \<Rightarrow> int option" where
  "js_to_number Undefined = None"
| "js_to_number Null = Some 0"
| "js_to_number (Bool b) = Some (if b then 1 else 0)"
| "js_to_number (Num n) = Some n"
| "js_to_number (Str s) = string_to_number s"
| "js_to_number (NativeFn f) = None"
| "js_to_number Obj = None"

definition js_le_zero :: "jsval \<Rightarrow> bool" where
  "js_le_zero v = (case js_to_number v of None \<Rightarrow> False | Some n \<Rightarrow> n \<le> 0)"

text \<open>\<^verbatim>\<open>s.replace(pat, rep)\<close> with a string pattern: the first occurrence only.\<close>

fun replace_first :: "string \<Rightarrow> string \<Rightarrow> string \<Rightarrow> string" where
  "replace_first pat rep [] = (if pat = [] then rep else [])"
| "replace_first pat rep (c # cs) =
     (if take (length pat) (c # cs) = pat then rep @ drop (length pat) (c # cs)
      else c # replace_first pat rep cs)"

section \<open>Template compilation\<close>

text \<open>
  \<^verbatim>\<open>const regex = /{{(.*?)}}/g\<close>
  \<^verbatim>\<open>return content.replace(regex, (_, g1) => variables[g1] || "")\<close>

  Strings are lists of 8-bit characters; of the characters that \<^verbatim>\<open>.\<close> does not match,
  line feed and carriage return are in that range.
\<close>

definition line_terminator :: "char \<Rightarrow> bool" where
  "line_terminator c = (c = CHR 0x0A \<or> c = CHR 0x0D)"

text \<open>
  \<open>match_group s\<close> matches \<^verbatim>\<open>(.*?)}}\<close> at the start of \<open>s\<close>: the lazy group grows one
  character at a time until \<^verbatim>\<open>}}\<close> follows, and fails at a line terminator or at the end
  of the string. It returns the group and the text after the closing braces.
\<close>

fun match_group :: "string \<Rightarrow> (string \<times> string) option" where
  "match_group [] = None"
| "match_group [c] = None"
| "match_group (c # d # cs) =
     (if c = CHR ''}'' \<and> d = CHR ''}'' then Some ([], cs)
      else if line_terminator c then None
      else (case match_group (d # cs) of
              None \<Rightarrow> None
            | Some (g, r) \<Rightarrow> Some (c # g, r)))"

text \<open>The replacer \<^verbatim>\<open>(_, g1) => variables[g1] || ""\<close>, converted to a string.\<close>

definition variables_object :: "(string \<times> string) list \<Rightarrow> jsobj" where
  "variables_object variables = map (\<lambda>(k, v). (k, Str v)) variables"

definition replacer :: "(string \<times> string) list \<Rightarrow> string \<Rightarrow> string" where
  "replacer variables g1 = js_to_string (js_or (js_get (variables_object variables) g1) (Str []))"

lemma match_group_shorter: "match_group s = Some (g, r) \<Longrightarrow> length r < length s"
  by (induction s arbitrary: g r rule: match_group.induct)
     (auto split: if_splits option.splits)

function compileTemplate :: "string \<Rightarrow> (string \<times> string) list \<Rightarrow> string" where
  "compileTemplate [] variables = []"
| "compileTemplate [c] variables = [c]"
| "compileTemplate (c # d # cs) variables =
     (if c = CHR ''{'' \<and> d = CHR ''{'' then
        (case match_group cs of
           Some (g1, rest) \<Rightarrow> replacer variables g1 @ compileTemplate rest variables
         | None \<Rightarrow> c # compileTemplate (d # cs) variables)
      else c # compileTemplate (d # cs) variables)"
  by pat_completeness auto
termination
  by (relation "measure (\<lambda>(s, v). length s)") (auto dest: match_group_shorter)


section \<open>The database\<close>

text \<open>
  The tables \<^verbatim>\<open>org\<close>, \<^verbatim>\<open>app\<close> and \<^verbatim>\<open>run\<close>, with the columns the queries name. A table
  is a list of rows. Timestamps are microseconds since the epoch, in UTC.
\<close>

record org_row =
  org_id :: string
  org_created_at :: int
  org_plan :: string
  org_billing :: jsval
  play_allowance :: "int option"
  org_limited :: jsval
  org_verified :: jsval
  org_plan_period :: jsval
  org_canceled :: jsval
  stripe_customer :: "string option"
  stripe_subscription :: "string option"
  org_name :: string

record app_row =
  app_id :: string
  app_created_at :: int
  app_name :: string
  app_org_id :: string

record run_row =
  run_app :: string
  run_created_at :: int

definition nullable_str :: "string option \<Rightarrow> jsval" where
  "nullable_str v = (case v of None \<Rightarrow> Null | Some s \<Rightarrow> Str s)"

definition nullable_num :: "int option \<Rightarrow> jsval" where
  "nullable_num v = (case v of None \<Rightarrow> Null | Some n \<Rightarrow> Num n)"

definition org_column :: "org_row \<Rightarrow> string \<Rightarrow> jsval" where
  "org_column r c =
     (if c = ''id'' then Str (org_id r)
      else if c = ''created_at'' then Num (org_created_at r)
      else if c = ''plan'' then Str (org_plan r)
      else if c = ''billing'' then org_billing r
      else if c = ''play_allowance'' then nullable_num (play_allowance r)
      else if c = ''limited'' then org_limited r
      else if c = ''verified'' then org_verified r
      else if c = ''plan_period'' then org_plan_period r
      else if c = ''canceled'' then org_canceled r
      else if c = ''stripe_customer'' then nullable_str (stripe_customer r)
      else if c = ''stripe_subscription'' then nullable_str (stripe_subscription r)
      else if c = ''name'' then Str (org_name r)
      else Undefined)"

text \<open>
  The query client \<^verbatim>\<open>@/utils/db\<close> is not among the sources. What it decides for the
  handlers is the property names of a result row: the column names as they are
  (\<open>SnakeKeys\<close>), or with each \<^verbatim>\<open>_x\<close> turned into \<^verbatim>\<open>X\<close> (\<open>CamelKeys\<close>, the client's
  camel-case transform). It is a parameter of every handler.
\<close>

datatype key_style = SnakeKeys | CamelKeys

definition upper :: "char \<Rightarrow> char" where
  "upper c =
     (case map_of (zip ''abcdefghijklmnopqrstuvwxyz'' ''ABCDEFGHIJKLMNOPQRSTUVWXYZ'') c of
        Some u \<Rightarrow> u | None \<Rightarrow> c)"

fun camel_tail :: "string \<Rightarrow> string" where
  "camel_tail [] = []"
| "camel_tail [c] = [c]"
| "camel_tail (c # d # cs) =
     (if c = CHR ''_'' then upper d # camel_tail cs else c # camel_tail (d # cs))"

definition to_camel :: "string \<Rightarrow> string" where
  "to_camel s = (case s of [] \<Rightarrow> [] | c # cs \<Rightarrow> c # camel_tail cs)"

definition column_key :: "key_style \<Rightarrow> string \<Rightarrow> string" where
  "column_key ks c = (case ks of SnakeKeys \<Rightarrow> c | CamelKeys \<Rightarrow> to_camel c)"

definition row_object :: "key_style \<Rightarrow> (string \<Rightarrow> jsval) \<Rightarrow> string list \<Rightarrow> jsobj" where
  "row_object ks col cs = map (\<lambda>c. (column_key ks c, col c)) cs"

text \<open>\<^verbatim>\<open>org?.k\<close>, where \<open>None\<close> is an \<^verbatim>\<open>undefined\<close> row.\<close>

definition optional_get :: "jsobj option \<Rightarrow> string \<Rightarrow> jsval" where
  "optional_get obj k = (case obj of None \<Rightarrow> Undefined | Some ob \<Rightarrow> js_get ob k)"

section \<open>The billing provider and the LLM providers\<close>

text \<open>
  Stripe and the LLM providers are services outside the repository. Stripe is a price
  table by lookup key, the subscriptions by id (each with its line items, item id and
  price id) and the checkout sessions created so far. An LLM call is recorded with the
  client that made it.
\<close>

record subscription =
  sub_items :: "(string \<times> string) list"
  sub_cancel_at_period_end :: bool
  sub_metadata :: "(string \<times> string) list"

record checkout_session =
  cs_mode :: string
  cs_payment_method_types :: "string list"
  cs_client_reference_id :: string
  cs_customer :: jsval
  cs_metadata :: "(string \<times> string) list"
  cs_line_items :: "(string \<times> nat) list"
  cs_success_url :: string
  cs_cancel_url :: string

record openai_params =
  apiKey :: "string option"
  baseURL :: "string option"
  defaultHeaders :: "(string \<times> string) list"

datatype llm_client = LitellmCompletion | OpenAIClient openai_params

record llm_call =
  call_client :: llm_client
  call_model :: jsval
  call_messages :: "jsobj list"
  call_params :: jsobj
  call_stream :: bool

record world =
  org_table :: "org_row list"
  app_table :: "app_row list"
  run_table :: "run_row list"
  stripe_prices :: "(string \<times> string list) list"
  stripe_subscriptions :: "(string \<times> subscription) list"
  stripe_sessions :: "checkout_session list"
  llm_calls :: "llm_call list"

text \<open>
  What a handler is given besides the request: the key style of the query client, the
  two environment variables, the clock, the URL Stripe gives a new checkout session and
  the text a provider streams back (\<open>None\<close>: the call fails).
\<close>

record config =
  key_style :: key_style
  OPENROUTER_API_KEY :: "string option"
  OPENAI_API_KEY :: "string option"
  now :: int
  checkout_url :: "checkout_session \<Rightarrow> string"
  provider :: "llm_call \<Rightarrow> string option"

datatype error = Error string | TypeError | StripeError | ProviderError

datatype response =
    OrgBody "jsobj option"
  | EmptyBody
  | ProjectsBody "jsobj list"
  | UsageBody "(int \<times> nat) list"
  | CheckoutBody string
  | OkBody
  | StreamingTextResponse string

definition prices_list :: "world \<Rightarrow> string \<Rightarrow> string list" where
  "prices_list w lookupKey =
     (case map_of (stripe_prices w) lookupKey of None \<Rightarrow> [] | Some ps \<Rightarrow> ps)"

definition subscriptions_retrieve :: "world \<Rightarrow> jsval \<Rightarrow> error + subscription" where
  "subscriptions_retrieve w sid =
     (case sid of
        Str s \<Rightarrow>
          (case map_of (stripe_subscriptions w) s of
             None \<Rightarrow> Inl StripeError
           | Some sub \<Rightarrow> Inr sub)
      | _ \<Rightarrow> Inl StripeError)"

text \<open>
  \<^verbatim>\<open>stripe.subscriptions.update(id, {cancel_at_period_end: false, metadata, items: [{id, price}]})\<close>:
  the named item takes the price, the metadata keys are set.
\<close>

definition subscriptions_update ::
  "world \<Rightarrow> jsval \<Rightarrow> (string \<times> string) list \<Rightarrow> string \<Rightarrow> string \<Rightarrow> error + world" where
  "subscriptions_update w sid metadata subItem priceId =
     (case subscriptions_retrieve w sid of
        Inl e \<Rightarrow> Inl e
      | Inr sub \<Rightarrow>
          (case sid of
             Str s \<Rightarrow>
               Inr (w\<lparr>stripe_subscriptions :=
                 AList.update s
                   (sub\<lparr>sub_items := map (\<lambda>(i, p). if i = subItem then (i, priceId) else (i, p)) (sub_items sub),
                        sub_cancel_at_period_end := False,
                        sub_metadata := fold (\<lambda>(k, v). AList.update k v) metadata (sub_metadata sub)\<rparr>)
                   (stripe_subscriptions w)\<rparr>)
           | _ \<Rightarrow> Inl StripeError))"


section \<open>The handlers of \<^verbatim>\<open>/orgs/:orgId\<close>\<close>

text \<open>
  A handler takes the world and returns the response, or the exception thrown, and the
  world as it is when the handler returns or throws.
  \<^verbatim>\<open>const [org] = await sql`select ... from org where id = ${orgId}`\<close> is the first matching
  row as an object, or \<^verbatim>\<open>undefined\<close>.
\<close>

definition select_org :: "key_style \<Rightarrow> string list \<Rightarrow> world \<Rightarrow> string \<Rightarrow> jsobj option" where
  "select_org ks cols w orgId =
     (case filter (\<lambda>r. org_id r = orgId) (org_table w) of
        [] \<Rightarrow> None
      | r # _ \<Rightarrow> Some (row_object ks (org_column r) cols))"

definition update_org :: "(org_row \<Rightarrow> org_row) \<Rightarrow> string \<Rightarrow> world \<Rightarrow> world" where
  "update_org f orgId w =
     w\<lparr>org_table := map (\<lambda>r. if org_id r = orgId then f r else r) (org_table w)\<rparr>"

subsection \<open>\<^verbatim>\<open>GET /\<close>, \<^verbatim>\<open>PATCH /\<close>, \<^verbatim>\<open>GET /projects\<close>\<close>

definition get_org :: "config \<Rightarrow> world \<Rightarrow> string \<Rightarrow> (error + response) \<times> world" where
  "get_org cfg w orgId =
     (Inr (OrgBody (select_org (key_style cfg)
        [''id'', ''created_at'', ''plan'', ''billing'', ''play_allowance'', ''limited'',
         ''verified'', ''plan_period'', ''canceled'', ''stripe_customer'',
         ''stripe_subscription'', ''name''] w orgId)), w)"

definition patch_org :: "config \<Rightarrow> world \<Rightarrow> string \<Rightarrow> string \<Rightarrow> (error + response) \<times> world" where
  "patch_org cfg w orgId name =
     (Inr EmptyBody, update_org (\<lambda>r. r\<lparr>org_name := name\<rparr>) orgId w)"

definition app_column :: "world \<Rightarrow> app_row \<Rightarrow> string \<Rightarrow> jsval" where
  "app_column w a c =
     (if c = ''id'' then Str (app_id a)
      else if c = ''created_at'' then Num (app_created_at a)
      else if c = ''name'' then Str (app_name a)
      else if c = ''org_id'' then Str (app_org_id a)
      else if c = ''activated'' then Bool (list_ex (\<lambda>r. run_app r = app_id a) (run_table w))
      else Undefined)"

definition get_projects :: "config \<Rightarrow> world \<Rightarrow> string \<Rightarrow> (error + response) \<times> world" where
  "get_projects cfg w orgId =
     (Inr (ProjectsBody
        (map (\<lambda>a. row_object (key_style cfg) (app_column w a)
                [''id'', ''created_at'', ''name'', ''org_id'', ''activated''])
           (filter (\<lambda>a. app_org_id a = orgId) (app_table w)))), w)"

subsection \<open>\<^verbatim>\<open>GET /usage\<close>\<close>

definition day :: int where
  "day = 86400000000"

text \<open>\<^verbatim>\<open>date_trunc('day', t)\<close>\<close>

definition date_trunc_day :: "int \<Rightarrow> int" where
  "date_trunc_day t = t - t mod day"

text \<open>\<^verbatim>\<open>r.created_at > now() - interval '30 days'\<close>\<close>

definition in_window :: "config \<Rightarrow> run_row \<Rightarrow> bool" where
  "in_window cfg r = (run_created_at r > now cfg - 30 * day)"

text \<open>\<^verbatim>\<open>!projectId\<close> holds for a missing parameter and for an empty one.\<close>

definition projectId_given :: "string option \<Rightarrow> bool" where
  "projectId_given projectId = (case projectId of None \<Rightarrow> False | Some p \<Rightarrow> p \<noteq> [])"

text \<open>
  The rows of the \<^verbatim>\<open>from\<close>, \<^verbatim>\<open>join\<close> and \<^verbatim>\<open>where\<close> clauses: without a project id,
  one row for each pair of a run and an app of the organization the run belongs to; with
  one, the runs of that app.
\<close>

definition usage_runs :: "config \<Rightarrow> world \<Rightarrow> string \<Rightarrow> string option \<Rightarrow> run_row list" where
  "usage_runs cfg w orgId projectId =
     (if \<not> projectId_given projectId then
        filter (in_window cfg)
          (concat (map (\<lambda>r. map (\<lambda>a. r)
             (filter (\<lambda>a. run_app r = app_id a \<and> app_org_id a = orgId) (app_table w)))
             (run_table w)))
      else
        filter (\<lambda>r. Some (run_app r) = projectId \<and> in_window cfg r) (run_table w))"

text \<open>\<^verbatim>\<open>select date, count(*) ... group by date order by date desc\<close>\<close>

definition group_count_desc :: "int list \<Rightarrow> (int \<times> nat) list" where
  "group_count_desc ds = map (\<lambda>d. (d, count_list ds d)) (rev (sort (remdups ds)))"

definition usage_query :: "config \<Rightarrow> world \<Rightarrow> string \<Rightarrow> string option \<Rightarrow> (int \<times> nat) list" where
  "usage_query cfg w orgId projectId =
     group_count_desc
       (map (\<lambda>r. date_trunc_day (run_created_at r)) (usage_runs cfg w orgId projectId))"

definition get_usage ::
  "config \<Rightarrow> world \<Rightarrow> string \<Rightarrow> string option \<Rightarrow> (error + response) \<times> world" where
  "get_usage cfg w orgId projectId = (Inr (UsageBody (usage_query cfg w orgId projectId)), w)"

subsection \<open>\<^verbatim>\<open>POST /upgrade\<close>\<close>

definition new_checkout_session ::
  "string \<Rightarrow> jsobj \<Rightarrow> string \<Rightarrow> string \<Rightarrow> string \<Rightarrow> string \<Rightarrow> checkout_session" where
  "new_checkout_session orgId org plan period origin priceId =
     \<lparr>cs_mode = ''subscription'',
      cs_payment_method_types = [''card''],
      cs_client_reference_id = orgId,
      cs_customer = js_or (js_get org ''stripeCustomer'') Undefined,
      cs_metadata = [(''plan'', plan), (''period'', period)],
      cs_line_items = [(priceId, 1)],
      cs_success_url = origin @ ''/billing/thank-you'',
      cs_cancel_url = origin @ ''/billing''\<rparr>"

definition upgrade ::
  "config \<Rightarrow> world \<Rightarrow> string \<Rightarrow> string \<Rightarrow> string \<Rightarrow> string \<Rightarrow> (error + response) \<times> world" where
  "upgrade cfg w orgId plan period origin =
     (let lookupKey = plan @ ''_'' @ period in
      case prices_list w lookupKey of
        [] \<Rightarrow> (Inl (Error ''No price found for this plan and period''), w)
      | priceId # _ \<Rightarrow>
          (case select_org (key_style cfg)
                  [''id'', ''plan'', ''stripe_customer'', ''stripe_subscription''] w orgId of
             None \<Rightarrow> (Inl (Error ''Org not found''), w)
           | Some org \<Rightarrow>
               if \<not> js_truthy (js_get org ''stripe_subscription'') then
                 (let checkoutSession = new_checkout_session orgId org plan period origin priceId in
                  (Inr (CheckoutBody (checkout_url cfg checkoutSession)),
                   w\<lparr>stripe_sessions := stripe_sessions w @ [checkoutSession]\<rparr>))
               else
                 (case subscriptions_retrieve w (js_get org ''stripeSubscription'') of
                    Inl e \<Rightarrow> (Inl e, w)
                  | Inr subscription \<Rightarrow>
                      (case sub_items subscription of
                         [] \<Rightarrow> (Inl TypeError, w)
                       | (subItem, _) # _ \<Rightarrow>
                           (case subscriptions_update w (js_get org ''stripeSubscription'')
                                   [(''plan'', plan), (''period'', period)] subItem priceId of
                              Inl e \<Rightarrow> (Inl e, w)
                            | Inr w' \<Rightarrow>
                                (Inr OkBody,
                                 update_org (\<lambda>r. r\<lparr>org_plan := plan\<rparr>) orgId w'))))))"

subsection \<open>\<^verbatim>\<open>POST /playground\<close>\<close>

definition OPENROUTER_MODELS :: "string list" where
  "OPENROUTER_MODELS =
     [''mistralai/mistral-7b-instruct'',
      ''openai/gpt-4-32k'',
      ''openchat/openchat-7b'',
      ''teknium/openhermes-2.5-mistral-7b'',
      ''mistralai/mixtral-8x7b-instruct'',
      ''open-orca/mistral-7b-openorca'',
      ''perplexity/pplx-70b-chat'',
      ''perplexity/pplx-7b-chat'',
      ''google/gemini-pro'',
      ''google/palm-2-chat-bison'',
      ''meta-llama/llama-2-13b-chat'',
      ''meta-llama/llama-2-70b-chat'']"

definition ANTHROPIC_MODELS :: "string list" where
  "ANTHROPIC_MODELS = [''claude-2'', ''claude-2.0'', ''claude-instant-v1'']"

text \<open>\<^verbatim>\<open>xs.includes(v)\<close> on an array of strings\<close>

definition array_includes :: "string list \<Rightarrow> jsval \<Rightarrow> bool" where
  "array_includes xs v = (case v of Str s \<Rightarrow> s \<in> set xs | _ \<Rightarrow> False)"

record playground_body =
  content :: "jsobj list"
  extra :: "jsobj option"
  testValues :: "(string \<times> string) list option"

text \<open>
  \<^verbatim>\<open>item.content = compileTemplate(item.content, testValues)\<close>: calling \<^verbatim>\<open>replace\<close> on
  a content that is not a string throws.
\<close>

definition compile_item :: "(string \<times> string) list \<Rightarrow> jsobj \<Rightarrow> error + jsobj" where
  "compile_item variables item =
     (case js_get item ''content'' of
        Str c \<Rightarrow> Inr (js_set item ''content'' (Str (compileTemplate c variables)))
      | _ \<Rightarrow> Inl TypeError)"

fun compile_items :: "(string \<times> string) list \<Rightarrow> jsobj list \<Rightarrow> error + jsobj list" where
  "compile_items variables [] = Inr []"
| "compile_items variables (item # items) =
     (case compile_item variables item of
        Inl e \<Rightarrow> Inl e
      | Inr item' \<Rightarrow>
          (case compile_items variables items of
             Inl e \<Rightarrow> Inl e
           | Inr items' \<Rightarrow> Inr (item' # items')))"

definition convert_message :: "jsobj \<Rightarrow> error + jsobj" where
  "convert_message item =
     (case js_get item ''role'' of
        Str role \<Rightarrow>
          Inr [(''role'', Str (replace_first ''ai'' ''assistant'' role)),
               (''content'', js_or (js_get item ''content'') (js_get item ''text'')),
               (''function_call'', js_or (js_get item ''functionCall'') Undefined),
               (''tool_calls'', js_or (js_get item ''toolCalls'') Undefined),
               (''name'', js_or (js_get item ''name'') Undefined)]
      | _ \<Rightarrow> Inl TypeError)"

fun convertInputToOpenAIMessages :: "jsobj list \<Rightarrow> error + jsobj list" where
  "convertInputToOpenAIMessages [] = Inr []"
| "convertInputToOpenAIMessages (item # items) =
     (case convert_message item of
        Inl e \<Rightarrow> Inl e
      | Inr m \<Rightarrow>
          (case convertInputToOpenAIMessages items of
             Inl e \<Rightarrow> Inl e
           | Inr ms \<Rightarrow> Inr (m # ms)))"

text \<open>\<^verbatim>\<open>extra?.model || "gpt-3.5-turbo"\<close>\<close>

definition chosen_model :: "jsobj option \<Rightarrow> jsval" where
  "chosen_model ex = js_or (optional_get ex ''model'') (Str ''gpt-3.5-turbo'')"

text \<open>
  The call strategy: \<^verbatim>\<open>completion\<close> of litellm, or \<^verbatim>\<open>chat.completions.create\<close> of an
  OpenAI client built with the OpenRouter parameters or with the OpenAI key alone.
\<close>

definition select_method :: "config \<Rightarrow> jsval \<Rightarrow> llm_client" where
  "select_method cfg model =
     (if array_includes ANTHROPIC_MODELS model then LitellmCompletion
      else OpenAIClient
        (if array_includes OPENROUTER_MODELS model then
           \<lparr>apiKey = OPENROUTER_API_KEY cfg,
            baseURL = Some ''https://openrouter.ai/api/v1'',
            defaultHeaders = [(''HTTP-Referer'', ''https://lunary.ai''), (''X-Title'', ''Lunary.ai'')]\<rparr>
         else
           \<lparr>apiKey = OPENAI_API_KEY cfg, baseURL = None, defaultHeaders = []\<rparr>))"

definition request_params :: "jsobj option \<Rightarrow> jsobj" where
  "request_params ex =
     map (\<lambda>k. (k, optional_get ex k))
       [''temperature'', ''max_tokens'', ''top_p'', ''top_k'', ''presence_penalty'',
        ''frequency_penalty'', ''stop'', ''functions'', ''tools'', ''seed'']"

text \<open>
  Everything between the decrement and the provider call: the template build, the model,
  the messages and the method.
\<close>

definition build_call :: "config \<Rightarrow> playground_body \<Rightarrow> error + llm_call" where
  "build_call cfg body =
     (case (case testValues body of
              Some variables \<Rightarrow> compile_items variables (content body)
            | None \<Rightarrow> Inr (content body)) of
        Inl e \<Rightarrow> Inl e
      | Inr copy \<Rightarrow>
          (let model = chosen_model (extra body) in
           case convertInputToOpenAIMessages copy of
             Inl e \<Rightarrow> Inl e
           | Inr messages \<Rightarrow>
               Inr \<lparr>call_client = select_method cfg model,
                    call_model = model,
                    call_messages = messages,
                    call_params = request_params (extra body),
                    call_stream = True\<rparr>))"

definition no_allowance_message :: string where
  "no_allowance_message =
     ''No allowance left today. Wait tomorrow or upgrade to continue using the playground.''"

definition playground ::
  "config \<Rightarrow> world \<Rightarrow> string \<Rightarrow> playground_body \<Rightarrow> (error + response) \<times> world" where
  "playground cfg w orgId body =
     (let org = select_org (key_style cfg) [''play_allowance''] w orgId in
      if js_le_zero (optional_get org ''playAllowance'') then
        (Inl (Error no_allowance_message), w)
      else
        (let w1 = update_org
                    (\<lambda>r. r\<lparr>play_allowance := map_option (\<lambda>n. n - 1) (play_allowance r)\<rparr>) orgId w in
         case build_call cfg body of
           Inl e \<Rightarrow> (Inl e, w1)
         | Inr call \<Rightarrow>
             (let w2 = w1\<lparr>llm_calls := llm_calls w1 @ [call]\<rparr> in
              case provider cfg call of
                None \<Rightarrow> (Inl ProviderError, w2)
              | Some text \<Rightarrow> (Inr (StreamingTextResponse text), w2))))"

subsection \<open>The router\<close>

datatype request =
    GetOrg
  | PatchOrg string
  | GetProjects
  | GetUsage "string option"
  | PostUpgrade string string string
  | PostPlayground playground_body

fun handle :: "config \<Rightarrow> world \<Rightarrow> string \<times> request \<Rightarrow> (error + response) \<times> world" where
  "handle cfg w (orgId, GetOrg) = get_org cfg w orgId"
| "handle cfg w (orgId, PatchOrg name) = patch_org cfg w orgId name"
| "handle cfg w (orgId, GetProjects) = get_projects cfg w orgId"
| "handle cfg w (orgId, GetUsage projectId) = get_usage cfg w orgId projectId"
| "handle cfg w (orgId, PostUpgrade plan period origin) = upgrade cfg w orgId plan period origin"
| "handle cfg w (orgId, PostPlayground body) = playground cfg w orgId body"

text \<open>Requests served one at a time, each on the world the previous one left.\<close>

fun serve :: "config \<Rightarrow> world \<Rightarrow> (string \<times> request) list \<Rightarrow> world" where
  "serve cfg w [] = w"
| "serve cfg w (rq # rqs) = serve cfg (snd (handle cfg w rq)) rqs"


section \<open>The evaluation creation view\<close>

text \<open>
  The state of \<^verbatim>\<open>NewEvaluation\<close> in \<^verbatim>\<open>packages/frontend/pages/evaluations/new.tsx\<close>: one
  field for each \<^verbatim>\<open>useState\<close>. An id that is \<^verbatim>\<open>null\<close> or \<^verbatim>\<open>undefined\<close> is \<open>None\<close>. The
  progress is a JavaScript number; it is modelled by an exact rational, so the sums
  below are the ones the source writes, without the rounding of doubles.
\<close>

record view =
  checklistModal :: bool
  models :: "string list"
  datasetId :: "string option"
  checklistId :: "string option"
  loading :: bool
  progress :: rat

definition initial_view :: view where
  "initial_view =
     \<lparr>checklistModal = False,
      models = [''gpt-4-turbo-preview'', ''gpt-3.5-turbo''],
      datasetId = None,
      checklistId = None,
      loading = False,
      progress = 0\<rparr>"

text \<open>Truthiness of a \<^verbatim>\<open>string | null | undefined\<close>.\<close>

definition id_truthy :: "string option \<Rightarrow> bool" where
  "id_truthy v = (case v of None \<Rightarrow> False | Some s \<Rightarrow> s \<noteq> [])"

text \<open>\<^verbatim>\<open>const canStartEvaluation = datasetId && models.length > 0 && checklistId\<close>\<close>

definition canStartEvaluation :: "view \<Rightarrow> bool" where
  "canStartEvaluation v =
     (id_truthy (datasetId v) \<and> 0 < length (models v) \<and> id_truthy (checklistId v))"

text \<open>
  The Start Evaluation button is given \<^verbatim>\<open>disabled={!canStartEvaluation}\<close> and
  \<^verbatim>\<open>loading={loading}\<close>. The \<^verbatim>\<open>Button\<close> of the component library is not among the
  sources; it renders disabled, and does not run \<^verbatim>\<open>onClick\<close>, when either of the two
  props is set.
\<close>

definition button_disabled :: "bool \<Rightarrow> bool \<Rightarrow> bool" where
  "button_disabled disabled_prop loading_prop = (disabled_prop \<or> loading_prop)"

definition start_enabled :: "view \<Rightarrow> bool" where
  "start_enabled v = (\<not> button_disabled (\<not> canStartEvaluation v) (loading v))"

text \<open>\<^verbatim>\<open>const timeEstimate = models.length * 3 * 5\<close>\<close>

definition timeEstimate :: "string list \<Rightarrow> nat" where
  "timeEstimate ms = length ms * 3 * 5"

text \<open>
  One run of the interval callback,
  \<^verbatim>\<open>setProgress((progress) => Math.min(100, progress + 100 / timeEstimate, 100))\<close>.
  With an estimate of zero the quotient is \<^verbatim>\<open>Infinity\<close> and the minimum is 100.
\<close>

definition progress_tick :: "nat \<Rightarrow> rat \<Rightarrow> rat" where
  "progress_tick te p =
     (if te = 0 then 100 else min 100 (min (p + 100 / of_nat te) 100))"

text \<open>
  \<^verbatim>\<open>startEval\<close> up to the request: \<^verbatim>\<open>setLoading(true)\<close>, \<^verbatim>\<open>setProgress(0)\<close>, and the
  estimate the interval callback keeps.
\<close>

definition startEval :: "view \<Rightarrow> view \<times> nat" where
  "startEval v = (v\<lparr>loading := True, progress := 0\<rparr>, timeEstimate (models v))"

text \<open>The progress shown after the callback has run \<open>k\<close> times, once a second.\<close>

definition progress_after :: "view \<Rightarrow> nat \<Rightarrow> rat" where
  "progress_after v k =
     (case startEval v of (v', te) \<Rightarrow> (progress_tick te ^^ k) (progress v'))"

text \<open>
  Modelled from the spec: the \<^verbatim>\<open>MultiSelect\<close> picker of the component library, which is
  not among the sources. The spec has "at least one model (max three)" and "Selecting
  more than three models must be rejected by the model picker": picking an option that
  is not selected adds it to the value unless the value already has \<^verbatim>\<open>maxValues\<close>
  entries, in which case the pick is rejected and the value stays. Picking an option
  that is selected takes it out, as removing it does. The picker reports the new value
  through \<^verbatim>\<open>onChange\<close>.
\<close>

definition multiselect_remove :: "string list \<Rightarrow> string \<Rightarrow> string list" where
  "multiselect_remove val opt = filter (\<lambda>x. x \<noteq> opt) val"

definition multiselect_pick :: "nat \<Rightarrow> string list \<Rightarrow> string \<Rightarrow> string list" where
  "multiselect_pick maxValues val opt =
     (if opt \<in> set val then multiselect_remove val opt
      else if length val < maxValues then val @ [opt]
      else val)"

text \<open>
  What can happen in the view, and the handler each control has. A click on the button
  runs \<^verbatim>\<open>startEval\<close> when the button is enabled; when the request returns,
  \<^verbatim>\<open>setLoading(false)\<close> runs.
\<close>

datatype event =
    DatasetChange "string option"
  | ModelPick string
  | ModelRemove string
  | ChecklistChange "string option"
  | ChecklistModalOpen
  | ChecklistModalClose "string option"
  | StartClick
  | RequestDone

fun view_step :: "view \<Rightarrow> event \<Rightarrow> view" where
  "view_step v (DatasetChange d) = v\<lparr>datasetId := d\<rparr>"
| "view_step v (ModelPick m) = v\<lparr>models := multiselect_pick 3 (models v) m\<rparr>"
| "view_step v (ModelRemove m) = v\<lparr>models := multiselect_remove (models v) m\<rparr>"
| "view_step v (ChecklistChange c) = v\<lparr>checklistId := c\<rparr>"
| "view_step v ChecklistModalOpen = v\<lparr>checklistModal := True\<rparr>"
| "view_step v (ChecklistModalClose c) =
     (if id_truthy c then v\<lparr>checklistModal := False, checklistId := c\<rparr>
      else v\<lparr>checklistModal := False\<rparr>)"
| "view_step v StartClick = (if start_enabled v then fst (startEval v) else v)"
| "view_step v RequestDone = v\<lparr>loading := False\<rparr>"

definition view_after :: "event list \<Rightarrow> view" where
  "view_after evs = foldl view_step initial_view evs"

text \<open>The view once an evaluation of a chosen dataset and checklist has been started.\<close>

definition started_view :: view where
  "started_view =
     view_after [DatasetChange (Some ''d1''), ChecklistChange (Some ''c1''), StartClick]"

section \<open>Templates as the specification describes them\<close>

text \<open>
  The specification speaks of \<^verbatim>\<open>{{var}}\<close> tokens in a text. A template in these terms is a
  list of pieces, text or variable; \<open>template_of\<close> writes it out and \<open>substituted\<close> is what
  the specification asks of the result: each variable piece replaced by the value the
  map has for it, by nothing when the map has none, and the text pieces kept.
\<close>

datatype piece = Text string | Var string

fun template_of :: "piece list \<Rightarrow> string" where
  "template_of [] = []"
| "template_of (Text t # ps) = t @ template_of ps"
| "template_of (Var x # ps) = ''{{'' @ x @ ''}}'' @ template_of ps"

fun substituted :: "(string \<times> string) list \<Rightarrow> piece list \<Rightarrow> string" where
  "substituted variables [] = []"
| "substituted variables (Text t # ps) = t @ substituted variables ps"
| "substituted variables (Var x # ps) =
     (case map_of variables x of Some v \<Rightarrow> v | None \<Rightarrow> []) @ substituted variables ps"

text \<open>
  The pieces are read back unambiguously when a text piece has no \<^verbatim>\<open>{{\<close> and does not
  end in \<^verbatim>\<open>{\<close>, and a variable name has no \<^verbatim>\<open>}\<close> and no line terminator. A name is the
  map's own when \<^verbatim>\<open>Object.prototype\<close> has no property of that name.
\<close>

fun no_opening :: "string \<Rightarrow> bool" where
  "no_opening [] = True"
| "no_opening [c] = (c \<noteq> CHR ''{'')"
| "no_opening (c # d # cs) = ((c \<noteq> CHR ''{'' \<or> d \<noteq> CHR ''{'') \<and> no_opening (d # cs))"

definition plain_name :: "string \<Rightarrow> bool" where
  "plain_name x = (CHR ''}'' \<notin> set x \<and> list_all (\<lambda>c. \<not> line_terminator c) x)"

definition own_name :: "string \<Rightarrow> bool" where
  "own_name x = (x \<notin> set object_prototype_functions \<and> x \<noteq> ''__proto__'')"

fun well_formed :: "piece list \<Rightarrow> bool" where
  "well_formed [] = True"
| "well_formed (Text t # ps) = (no_opening t \<and> well_formed ps)"
| "well_formed (Var x # ps) = (plain_name x \<and> own_name x \<and> well_formed ps)"

section \<open>Invariants and sample data\<close>

text \<open>
  The allowance invariant: \<^verbatim>\<open>id\<close> is the key of \<^verbatim>\<open>org\<close>, and no stored allowance is
  negative (a null allowance is not a number).
\<close>

definition allowance_ok :: "int option \<Rightarrow> bool" where
  "allowance_ok a = (case a of None \<Rightarrow> True | Some n \<Rightarrow> 0 \<le> n)"

definition allowance_inv :: "world \<Rightarrow> bool" where
  "allowance_inv w =
     (distinct (map org_id (org_table w)) \<and>
      list_all (\<lambda>r. allowance_ok (play_allowance r)) (org_table w))"

text \<open>A small world: one organization with a subscription and no allowance left.\<close>

definition demo_config :: "key_style \<Rightarrow> config" where
  "demo_config ks =
     \<lparr>key_style = ks,
      OPENROUTER_API_KEY = Some ''or-key'',
      OPENAI_API_KEY = Some ''oa-key'',
      now = 100 * day,
      checkout_url = (\<lambda>cs. ''https://checkout.stripe.com/'' @ cs_client_reference_id cs),
      provider = (\<lambda>c. Some ''hello'')\<rparr>"

definition demo_org :: org_row where
  "demo_org =
     \<lparr>org_id = ''o1'', org_created_at = 0, org_plan = ''free'', org_billing = Null,
      play_allowance = Some 0, org_limited = Bool False, org_verified = Bool True,
      org_plan_period = Null, org_canceled = Bool False,
      stripe_customer = Some ''cus_1'', stripe_subscription = Some ''sub_1'',
      org_name = ''Acme''\<rparr>"

definition demo_world :: world where
  "demo_world =
     \<lparr>org_table = [demo_org],
      app_table = [\<lparr>app_id = ''a1'', app_created_at = 0, app_name = ''App'', app_org_id = ''o1''\<rparr>],
      run_table = [\<lparr>run_app = ''a1'', run_created_at = 99 * day + 5\<rparr>],
      stripe_prices = [(''pro_monthly'', [''price_1''])],
      stripe_subscriptions =
        [(''sub_1'', \<lparr>sub_items = [(''si_1'', ''price_0'')],
                      sub_cancel_at_period_end = False, sub_metadata = []\<rparr>)],
      stripe_sessions = [],
      llm_calls = []\<rparr>"

definition demo_body :: playground_body where
  "demo_body =
     \<lparr>content = [[(''role'', Str ''ai''), (''content'', Str ''Hi {{name}}'')]],
      extra = Some [(''model'', Str ''claude-2'')],
      testValues = Some [(''name'', ''Bob'')]\<rparr>"

text \<open>The same world with one playground call left.\<close>

definition one_left :: world where
  "one_left = demo_world\<lparr>org_table := [demo_org\<lparr>play_allowance := Some 1\<rparr>]\<rparr>"

text \<open>The provider call that \<open>demo_body\<close> builds.\<close>

definition demo_llm_call :: llm_call where
  "demo_llm_call =
     \<lparr>call_client = LitellmCompletion,
      call_model = Str ''claude-2'',
      call_messages =
        [[(''role'', Str ''assistant''), (''content'', Str ''Hi Bob''),
          (''function_call'', Undefined), (''tool_calls'', Undefined),
          (''name'', Undefined)]],
      call_params = request_params (Some [(''model'', Str ''claude-2'')]),
      call_stream = True\<rparr>"

text \<open>
  A world for the usage query: two apps of two organizations, and runs of three days, one
  of them outside the window of the clock of \<open>demo_config\<close>.
\<close>

definition usage_world :: world where
  "usage_world =
     demo_world
       \<lparr>app_table :=
          [\<lparr>app_id = ''a1'', app_created_at = 0, app_name = ''App'', app_org_id = ''o1''\<rparr>,
           \<lparr>app_id = ''a2'', app_created_at = 0, app_name = ''Other'', app_org_id = ''o9''\<rparr>],
        run_table :=
          [\<lparr>run_app = ''a1'', run_created_at = 98 * day + 1\<rparr>,
           \<lparr>run_app = ''a1'', run_created_at = 99 * day + 5\<rparr>,
           \<lparr>run_app = ''a2'', run_created_at = 99 * day + 6\<rparr>,
           \<lparr>run_app = ''a1'', run_created_at = 99 * day + 7\<rparr>,
           \<lparr>run_app = ''a1'', run_created_at = 7\<rparr>]\<rparr>"

section \<open>Row objects under the two key styles\<close>

lemma camel_keys:
  "column_key CamelKeys ''play_allowance'' = ''playAllowance''"
  "column_key CamelKeys ''stripe_subscription'' = ''stripeSubscription''"
  "column_key CamelKeys ''stripe_customer'' = ''stripeCustomer''"
  "column_key CamelKeys ''id'' = ''id''"
  "column_key CamelKeys ''plan'' = ''plan''"
  by (simp_all add: column_key_def to_camel_def upper_def)

lemma snake_keys: "column_key SnakeKeys c = c"
  by (simp add: column_key_def)

lemma inherited_plain:
  "inherited_property ''playAllowance'' = Undefined"
  "inherited_property ''stripe_subscription'' = Undefined"
  "inherited_property ''stripeSubscription'' = Undefined"
  "inherited_property ''stripeCustomer'' = Undefined"
  by (simp_all add: inherited_property_def object_prototype_functions_def)

lemma read_allowance_camel:
  "optional_get (select_org CamelKeys [''play_allowance''] w orgId) ''playAllowance'' =
     (case filter (\<lambda>r. org_id r = orgId) (org_table w) of
        [] \<Rightarrow> Undefined
      | r # _ \<Rightarrow> nullable_num (play_allowance r))"
  by (simp add: select_org_def optional_get_def row_object_def js_get_def org_column_def
      camel_keys split: list.splits)

text \<open>
  With the column names kept as they are, \<^verbatim>\<open>org?.playAllowance\<close> reads a property the
  row does not have.
\<close>

lemma read_allowance_snake:
  "optional_get (select_org SnakeKeys [''play_allowance''] w orgId) ''playAllowance'' = Undefined"
  by (simp add: select_org_def optional_get_def row_object_def js_get_def org_column_def
      snake_keys inherited_plain split: list.splits)

lemma filter_key_unique:
  "distinct (map f xs) \<Longrightarrow> x \<in> set xs \<Longrightarrow> filter (\<lambda>y. f y = f x) xs = [x]"
proof (induction xs)
  case Nil
  then show ?case by simp
next
  case (Cons a xs)
  show ?case
  proof (cases "a = x")
    case True
    with Cons.prems have "f x \<notin> f ` set xs" by simp
    then have "filter (\<lambda>y. f y = f x) xs = []"
      by (metis (mono_tags, lifting) filter_False imageI)
    with True show ?thesis by simp
  next
    case False
    with Cons.prems have "x \<in> set xs" "f a \<noteq> f x" by auto
    with Cons show ?thesis by simp
  qed
qed

lemma update_org_absent:
  "orgId \<notin> set (map org_id (org_table w)) \<Longrightarrow> update_org f orgId w = w"
proof -
  assume a: "orgId \<notin> set (map org_id (org_table w))"
  have "map (\<lambda>r. if org_id r = orgId then f r else r) (org_table w) = org_table w"
    by (rule map_idI) (use a in auto)
  then show ?thesis by (simp add: update_org_def)
qed

lemma demo_rows:
  "distinct (map org_id (org_table demo_world))"
  "demo_org \<in> set (org_table demo_world)"
  "org_id demo_org = ''o1''"
  "play_allowance demo_org = Some 0"
  "key_style (demo_config ks) = ks"
  by (simp_all add: demo_world_def demo_org_def demo_config_def)

section \<open>The playground allowance\<close>

text \<open>
  C1. An organization whose stored \<^verbatim>\<open>play_allowance\<close> is at most zero: \<^verbatim>\<open>POST /playground\<close>
  throws the "No allowance left" error and returns the world it was given, so the
  allowance is not decremented and no provider call is recorded. The handler reads the
  column as \<^verbatim>\<open>org?.playAllowance\<close>, that is, from a row with camel-case keys.
\<close>

theorem playground_allowance_exhausted:
  assumes "key_style cfg = CamelKeys"
    and "distinct (map org_id (org_table w))"
    and "r \<in> set (org_table w)" and "org_id r = orgId"
    and "play_allowance r = Some n" and "n \<le> 0"
  shows "playground cfg w orgId body = (Inl (Error no_allowance_message), w)"
proof -
  have "filter (\<lambda>y. org_id y = orgId) (org_table w) = [r]"
    using filter_key_unique [of org_id "org_table w" r] assms by simp
  then have "optional_get (select_org CamelKeys [''play_allowance''] w orgId) ''playAllowance'' = Num n"
    using assms by (simp add: read_allowance_camel nullable_num_def)
  then show ?thesis
    using assms by (simp add: playground_def js_le_zero_def)
qed

theorem playground_allowance_exhausted_witness:
  "key_style (demo_config CamelKeys) = CamelKeys \<and>
   distinct (map org_id (org_table demo_world)) \<and>
   demo_org \<in> set (org_table demo_world) \<and>
   play_allowance demo_org = Some 0 \<and>
   playground (demo_config CamelKeys) demo_world ''o1'' demo_body =
     (Inl (Error no_allowance_message), demo_world)"
  using playground_allowance_exhausted
    [of "demo_config CamelKeys" demo_world demo_org "''o1''" 0 demo_body]
  by (simp add: demo_rows)


lemma compile_items_error: "compile_items vs items = Inl e \<Longrightarrow> e = TypeError"
  by (induction items arbitrary: e)
     (auto simp: compile_item_def split: sum.splits jsval.splits)

lemma convert_error: "convertInputToOpenAIMessages items = Inl e \<Longrightarrow> e = TypeError"
  by (induction items arbitrary: e)
     (auto simp: convert_message_def split: sum.splits jsval.splits)

lemma build_call_error: "build_call cfg body = Inl e \<Longrightarrow> e = TypeError"
  by (auto simp: build_call_def Let_def split: sum.splits option.splits
      dest: compile_items_error convert_error)

text \<open>
  C10. No row of \<^verbatim>\<open>org\<close> has the id of the request: under either key style the guard
  \<^verbatim>\<open>org?.playAllowance <= 0\<close> is false, so the allowance error is not raised; the
  decrement changes no row; and when the request body builds a call, that call is made
  (it is appended to the calls recorded).
\<close>

theorem playground_unknown_org:
  assumes "orgId \<notin> set (map org_id (org_table w))"
  shows "fst (playground cfg w orgId body) \<noteq> Inl (Error no_allowance_message) \<and>
         org_table (snd (playground cfg w orgId body)) = org_table w \<and>
         (\<forall>call. build_call cfg body = Inr call \<longrightarrow>
            llm_calls (snd (playground cfg w orgId body)) = llm_calls w @ [call])"
proof -
  have none: "filter (\<lambda>r. org_id r = orgId) (org_table w) = []"
    using assms by (auto simp: filter_empty_conv)
  have guard: "\<not> js_le_zero (optional_get
      (select_org (key_style cfg) [''play_allowance''] w orgId) ''playAllowance'')"
    by (cases "key_style cfg")
       (simp_all add: read_allowance_camel read_allowance_snake none js_le_zero_def)
  have upd: "update_org f orgId w = w" for f
    using assms by (rule update_org_absent)
  show ?thesis
    using guard
    by (auto simp: playground_def upd Let_def split: sum.splits option.splits
        dest: build_call_error)
qed

lemma demo_call: "build_call (demo_config ks) demo_body = Inr demo_llm_call"
  by (simp add: build_call_def Let_def demo_body_def compile_item_def js_get_def js_set_def
      convert_message_def chosen_model_def optional_get_def js_or_def select_method_def
      array_includes_def ANTHROPIC_MODELS_def replacer_def variables_object_def
      line_terminator_def inherited_property_def object_prototype_functions_def
      demo_llm_call_def)

theorem playground_unknown_org_witness:
  "''o2'' \<notin> set (map org_id (org_table demo_world)) \<and>
   fst (playground (demo_config SnakeKeys) demo_world ''o2'' demo_body) \<noteq>
     Inl (Error no_allowance_message) \<and>
   org_table (snd (playground (demo_config SnakeKeys) demo_world ''o2'' demo_body)) = [demo_org] \<and>
   map call_model (llm_calls (snd (playground (demo_config SnakeKeys) demo_world ''o2'' demo_body))) =
     [Str ''claude-2'']"
proof -
  have absent: "''o2'' \<notin> set (map org_id (org_table demo_world))"
    by (simp add: demo_world_def demo_org_def)
  show ?thesis
    using playground_unknown_org [OF absent, of "demo_config SnakeKeys" demo_body] absent
    by (simp add: demo_call) (simp add: demo_world_def demo_llm_call_def)
qed

section \<open>The allowance never becomes negative\<close>

lemma upgrade_org_columns:
  "map org_id (org_table (snd (upgrade cfg w orgId plan period origin))) = map org_id (org_table w) \<and>
   map play_allowance (org_table (snd (upgrade cfg w orgId plan period origin))) =
     map play_allowance (org_table w)"
  by (auto simp: upgrade_def Let_def update_org_def subscriptions_update_def comp_def
      split: list.splits option.splits sum.splits jsval.splits)

lemma inv_columns:
  "map org_id (org_table w') = map org_id (org_table w) \<Longrightarrow>
   map play_allowance (org_table w') = map play_allowance (org_table w) \<Longrightarrow>
   allowance_inv w \<Longrightarrow> allowance_inv w'"
proof -
  assume ids: "map org_id (org_table w') = map org_id (org_table w)"
    and al: "map play_allowance (org_table w') = map play_allowance (org_table w)"
    and inv: "allowance_inv w"
  have "list_all (\<lambda>r. allowance_ok (play_allowance r)) rows =
        list_all allowance_ok (map play_allowance rows)"
    for rows :: "org_row list"
    by (simp add: list_all_iff)
  with ids al inv show ?thesis
    by (simp add: allowance_inv_def)
qed

lemma playground_org_table:
  "org_table (snd (playground cfg w orgId body)) =
     (if js_le_zero (optional_get
           (select_org (key_style cfg) [''play_allowance''] w orgId) ''playAllowance'')
      then org_table w
      else map (\<lambda>r. if org_id r = orgId
                     then r\<lparr>play_allowance := map_option (\<lambda>n. n - 1) (play_allowance r)\<rparr>
                     else r) (org_table w))"
  by (simp add: playground_def Let_def update_org_def split: sum.splits option.splits)

lemma playground_preserves:
  assumes camel: "key_style cfg = CamelKeys" and inv: "allowance_inv w"
  shows "allowance_inv (snd (playground cfg w orgId body))"
proof (cases "js_le_zero (optional_get
    (select_org (key_style cfg) [''play_allowance''] w orgId) ''playAllowance'')")
  case True
  then have "org_table (snd (playground cfg w orgId body)) = org_table w"
    by (simp add: playground_org_table)
  with inv show ?thesis by (simp add: allowance_inv_def)
next
  case False
  let ?dec = "\<lambda>r. r\<lparr>play_allowance := map_option (\<lambda>n. n - 1) (play_allowance r)\<rparr>"
  let ?rows = "map (\<lambda>r. if org_id r = orgId then ?dec r else r) (org_table w)"
  have tab: "org_table (snd (playground cfg w orgId body)) = ?rows"
    using False by (simp add: playground_org_table)
  have ids: "map org_id ?rows = map org_id (org_table w)"
    by (simp add: comp_def if_distrib cong: if_cong)
  have dist: "distinct (map org_id (org_table w))"
    and ok: "\<And>x. x \<in> set (org_table w) \<Longrightarrow> allowance_ok (play_allowance x)"
    using inv by (auto simp: allowance_inv_def list_all_iff)
  have "allowance_ok (play_allowance (if org_id x = orgId then ?dec x else x))"
    if x: "x \<in> set (org_table w)" for x
  proof (cases "org_id x = orgId")
    case neq: False
    with ok [OF x] show ?thesis by simp
  next
    case eq: True
    have "filter (\<lambda>y. org_id y = orgId) (org_table w) = [x]"
      using filter_key_unique [of org_id "org_table w" x] dist x eq by simp
    then have "\<not> js_le_zero (nullable_num (play_allowance x))"
      using False camel by (simp add: read_allowance_camel)
    then show ?thesis
      using eq by (auto simp: js_le_zero_def nullable_num_def allowance_ok_def
          split: option.splits)
  qed
  then have la: "list_all (\<lambda>r. allowance_ok (play_allowance r)) ?rows"
    unfolding list_all_iff by fastforce
  have d2: "distinct (map org_id ?rows)"
    by (simp only: ids dist)
  show ?thesis
    by (simp only: allowance_inv_def tab d2 la simp_thms)
qed

lemma handle_preserves:
  assumes "key_style cfg = CamelKeys" and "allowance_inv w"
  shows "allowance_inv (snd (handle cfg w rq))"
proof (cases rq)
  case (Pair orgId req)
  show ?thesis
  proof (cases req)
    case GetOrg
    with Pair assms show ?thesis by (simp add: get_org_def)
  next
    case (PatchOrg name)
    have "allowance_inv (update_org (\<lambda>r. r\<lparr>org_name := name\<rparr>) orgId w)"
      using assms(2)
      by (rule inv_columns [rotated 2])
         (simp_all add: update_org_def comp_def if_distrib cong: if_cong)
    with Pair PatchOrg show ?thesis by (simp add: patch_org_def)
  next
    case GetProjects
    with Pair assms show ?thesis by (simp add: get_projects_def)
  next
    case (GetUsage projectId)
    with Pair assms show ?thesis by (simp add: get_usage_def)
  next
    case (PostUpgrade plan period origin)
    have "allowance_inv (snd (upgrade cfg w orgId plan period origin))"
      using upgrade_org_columns [of cfg w orgId plan period origin] assms(2)
      by (blast intro: inv_columns)
    with Pair PostUpgrade show ?thesis by simp
  next
    case (PostPlayground body)
    with Pair assms show ?thesis by (simp add: playground_preserves)
  qed
qed

text \<open>
  C3. Requests served one at a time: from a world where \<^verbatim>\<open>id\<close> is the key of \<^verbatim>\<open>org\<close> and
  every stored allowance is non-negative, any sequence of requests to the six handlers
  leads to a world where that still holds. The guard of \<^verbatim>\<open>POST /playground\<close> reads the
  allowance from a row with camel-case keys.
\<close>

theorem serve_preserves_allowance:
  "key_style cfg = CamelKeys \<Longrightarrow> allowance_inv w \<Longrightarrow> allowance_inv (serve cfg w rqs)"
proof (induction rqs arbitrary: w)
  case Nil
  then show ?case by simp
next
  case (Cons rq rqs)
  then show ?case by (simp add: handle_preserves)
qed


lemma one_left_inv: "allowance_inv one_left"
  by (simp add: allowance_inv_def one_left_def allowance_ok_def demo_org_def)

lemma one_left_first:
  "build_call (demo_config CamelKeys) demo_body = Inr the_call \<Longrightarrow>
   snd (playground (demo_config CamelKeys) one_left ''o1'' demo_body) =
     one_left\<lparr>org_table := [demo_org], llm_calls := [the_call]\<rparr>"
  by (simp add: playground_def read_allowance_camel demo_rows one_left_def demo_org_def
      nullable_num_def js_le_zero_def update_org_def demo_world_def demo_config_def)

lemma one_left_second:
  "snd (playground (demo_config CamelKeys)
          (one_left\<lparr>org_table := [demo_org], llm_calls := cs\<rparr>) ''o1'' demo_body) =
     one_left\<lparr>org_table := [demo_org], llm_calls := cs\<rparr>"
  by (simp add: playground_def read_allowance_camel demo_rows demo_org_def
      nullable_num_def js_le_zero_def)

theorem serve_preserves_allowance_witness:
  "key_style (demo_config CamelKeys) = CamelKeys \<and>
   allowance_inv one_left \<and>
   allowance_inv (serve (demo_config CamelKeys) one_left
     [(''o1'', PostPlayground demo_body), (''o1'', PostPlayground demo_body)]) \<and>
   map play_allowance (org_table (serve (demo_config CamelKeys) one_left
     [(''o1'', PostPlayground demo_body), (''o1'', PostPlayground demo_body)])) = [Some 0]"
  using serve_preserves_allowance [of "demo_config CamelKeys" one_left
      "[(''o1'', PostPlayground demo_body), (''o1'', PostPlayground demo_body)]"]
  by (simp add: demo_rows one_left_inv one_left_first [OF demo_call] one_left_second)

text \<open>
  With the column names kept as they are the guard reads \<^verbatim>\<open>undefined\<close> and never fires:
  the allowance error and the invariant depend on the camel-case keys.
\<close>

lemma playground_snake_unguarded:
  "key_style cfg = SnakeKeys \<Longrightarrow>
   fst (playground cfg w orgId body) \<noteq> Inl (Error no_allowance_message)"
  by (auto simp: playground_def read_allowance_snake js_le_zero_def Let_def
      split: sum.splits option.splits dest: build_call_error)


section \<open>Plan upgrade\<close>

lemma filter_id_empty:
  "filter (\<lambda>r. org_id r = orgId) rows = [] \<longleftrightarrow> orgId \<notin> set (map org_id rows)"
  by (induction rows) auto

lemma select_org_None:
  "select_org ks cols w orgId = None \<longleftrightarrow> orgId \<notin> set (map org_id (org_table w))"
  unfolding select_org_def using filter_id_empty [of orgId "org_table w"]
  by (auto split: list.splits)

lemma retrieve_error: "subscriptions_retrieve w v = Inl e \<Longrightarrow> e = StripeError"
  by (auto simp: subscriptions_retrieve_def split: jsval.splits option.splits)

lemma update_error:
  "subscriptions_update w v md i p = Inl e \<Longrightarrow> e = StripeError"
  by (auto simp: subscriptions_update_def split: jsval.splits sum.splits dest: retrieve_error)

lemma upgrade_no_price:
  "prices_list w (plan @ ''_'' @ period) = [] \<Longrightarrow>
   upgrade cfg w orgId plan period origin =
     (Inl (Error ''No price found for this plan and period''), w)"
  by (simp add: upgrade_def)

lemma upgrade_no_org:
  "prices_list w (plan @ ''_'' @ period) \<noteq> [] \<Longrightarrow>
   orgId \<notin> set (map org_id (org_table w)) \<Longrightarrow>
   upgrade cfg w orgId plan period origin = (Inl (Error ''Org not found''), w)"
proof -
  assume priced: "prices_list w (plan @ ''_'' @ period) \<noteq> []"
    and absent: "orgId \<notin> set (map org_id (org_table w))"
  from absent have "select_org (key_style cfg)
      [''id'', ''plan'', ''stripe_customer'', ''stripe_subscription''] w orgId = None"
    by (simp add: select_org_None)
  with priced show ?thesis
    by (simp add: upgrade_def split: list.splits)
qed

lemma upgrade_other:
  "prices_list w (plan @ ''_'' @ period) \<noteq> [] \<Longrightarrow>
   orgId \<in> set (map org_id (org_table w)) \<Longrightarrow>
   fst (upgrade cfg w orgId plan period origin) \<noteq> Inl (Error msg)"
proof -
  assume priced: "prices_list w (plan @ ''_'' @ period) \<noteq> []"
    and present: "orgId \<in> set (map org_id (org_table w))"
  from present obtain org where "select_org (key_style cfg)
      [''id'', ''plan'', ''stripe_customer'', ''stripe_subscription''] w orgId = Some org"
    using select_org_None [of "key_style cfg" _ w orgId] by (metis not_Some_eq)
  with priced show ?thesis
    by (auto simp: upgrade_def Let_def split: list.splits sum.splits
        dest: retrieve_error update_error)
qed

lemma demo_prices:
  "prices_list demo_world ''pro_yearly'' = []"
  "prices_list demo_world ''pro_monthly'' = [''price_1'']"
  by (simp_all add: prices_list_def demo_world_def)

text \<open>
  C7, as the handler has it. The price check comes first: "No price found for this plan
  and period" is thrown exactly when the price list of the lookup key \<^verbatim>\<open>plan_period\<close> is
  empty, and "Org not found" exactly when that list is not empty and no row of \<^verbatim>\<open>org\<close>
  has the id. Whenever the handler throws one of its own errors the world is the one it
  was given: no session created, no subscription updated, no row changed.
\<close>

theorem upgrade_errors:
  "(fst (upgrade cfg w orgId plan period origin) =
       Inl (Error ''No price found for this plan and period'')
     \<longleftrightarrow> prices_list w (plan @ ''_'' @ period) = []) \<and>
   (fst (upgrade cfg w orgId plan period origin) = Inl (Error ''Org not found'')
     \<longleftrightarrow> prices_list w (plan @ ''_'' @ period) \<noteq> [] \<and>
         orgId \<notin> set (map org_id (org_table w))) \<and>
   (\<forall>msg. fst (upgrade cfg w orgId plan period origin) = Inl (Error msg)
     \<longrightarrow> snd (upgrade cfg w orgId plan period origin) = w)"
proof (cases "prices_list w (plan @ ''_'' @ period) = []")
  case True
  then show ?thesis by (simp add: upgrade_no_price)
next
  case priced: False
  show ?thesis
  proof (cases "orgId \<in> set (map org_id (org_table w))")
    case True
    with priced show ?thesis
      using upgrade_other [of w plan period orgId cfg origin] by simp
  next
    case False
    with priced show ?thesis by (simp add: upgrade_no_org)
  qed
qed

theorem upgrade_errors_witness:
  "upgrade (demo_config CamelKeys) demo_world ''o1'' ''pro'' ''yearly'' ''https://app'' =
     (Inl (Error ''No price found for this plan and period''), demo_world) \<and>
   upgrade (demo_config CamelKeys) demo_world ''o2'' ''pro'' ''monthly'' ''https://app'' =
     (Inl (Error ''Org not found''), demo_world)"
proof -
  have absent: "''o2'' \<notin> set (map org_id (org_table demo_world))"
    by (simp add: demo_world_def demo_org_def)
  show ?thesis
    using upgrade_errors [of "demo_config CamelKeys" demo_world "''o1''" "''pro''"
        "''yearly''" "''https://app''"]
      upgrade_errors [of "demo_config CamelKeys" demo_world "''o2''" "''pro''"
        "''monthly''" "''https://app''"]
      absent
    by (simp add: demo_prices prod_eq_iff)
qed

text \<open>
  C7 as stated fails where both checks would fail: with no price for \<^verbatim>\<open>pro_yearly\<close> and
  no organization \<^verbatim>\<open>o2\<close>, the error is not "Org not found".
\<close>

theorem upgrade_org_not_found_counterexample:
  "\<not> (fst (upgrade (demo_config CamelKeys) demo_world ''o2'' ''pro'' ''yearly'' ''https://app'') =
        Inl (Error ''Org not found'')
      \<longleftrightarrow> ''o2'' \<notin> set (map org_id (org_table demo_world)))"
  by (simp add: upgrade_no_price demo_prices) (simp add: demo_world_def demo_org_def)

subsection \<open>An organization with a subscription\<close>

text \<open>
  The branch test reads \<^verbatim>\<open>org.stripe_subscription\<close>, the calls that follow read
  \<^verbatim>\<open>org.stripeSubscription\<close> (and \<^verbatim>\<open>org.stripeCustomer\<close>). A row has one of the two names.
\<close>

lemma read_subscription_camel:
  "js_get (row_object CamelKeys (org_column r)
     [''id'', ''plan'', ''stripe_customer'', ''stripe_subscription'']) ''stripe_subscription'' =
   Undefined"
  by (simp add: row_object_def js_get_def camel_keys inherited_plain)

lemma read_subscription_snake:
  "js_get (row_object SnakeKeys (org_column r)
     [''id'', ''plan'', ''stripe_customer'', ''stripe_subscription'']) ''stripe_subscription'' =
   nullable_str (stripe_subscription r)"
  "js_get (row_object SnakeKeys (org_column r)
     [''id'', ''plan'', ''stripe_customer'', ''stripe_subscription'']) ''stripeSubscription'' =
   Undefined"
  by (simp_all add: row_object_def js_get_def snake_keys inherited_plain org_column_def)

text \<open>With camel-case keys the handler never updates a subscription or a row.\<close>

lemma upgrade_camel_never_updates:
  assumes "key_style cfg = CamelKeys"
  shows "org_table (snd (upgrade cfg w orgId plan period origin)) = org_table w \<and>
         stripe_subscriptions (snd (upgrade cfg w orgId plan period origin)) =
           stripe_subscriptions w"
  using assms
  by (auto simp: upgrade_def Let_def select_org_def read_subscription_camel
      split: list.splits)

text \<open>With the column names kept, the subscription is retrieved by an undefined id.\<close>

lemma upgrade_snake_subscribed:
  assumes "key_style cfg = SnakeKeys"
    and "prices_list w (plan @ ''_'' @ period) \<noteq> []"
    and "filter (\<lambda>r. org_id r = orgId) (org_table w) = r # rs"
    and "stripe_subscription r = Some s" and "s \<noteq> []"
  shows "upgrade cfg w orgId plan period origin = (Inl StripeError, w)"
  using assms
  by (auto simp: upgrade_def Let_def select_org_def read_subscription_snake nullable_str_def
      subscriptions_retrieve_def split: list.splits)

text \<open>
  An organization without a subscription: under either key style a checkout session
  for the price is created, its URL is the response, and nothing else changes.
\<close>

lemma upgrade_without_subscription:
  assumes "prices_list w (plan @ ''_'' @ period) = priceId # others"
    and "filter (\<lambda>r. org_id r = orgId) (org_table w) = r # rs"
    and "stripe_subscription r = None"
  shows "\<exists>session. upgrade cfg w orgId plan period origin =
           (Inr (CheckoutBody (checkout_url cfg session)),
            w\<lparr>stripe_sessions := stripe_sessions w @ [session]\<rparr>) \<and>
           cs_line_items session = [(priceId, 1)] \<and> cs_client_reference_id session = orgId"
  using assms
  by (cases "key_style cfg")
     (auto simp: upgrade_def Let_def select_org_def read_subscription_snake
        read_subscription_camel nullable_str_def new_checkout_session_def)

text \<open>
  C2, second half, at an organization that has the subscription \<^verbatim>\<open>sub_1\<close>: with
  camel-case keys the handler creates a checkout session and leaves subscription and
  plan as they were; with the column names kept it fails in Stripe. Under neither is
  the line item of \<^verbatim>\<open>sub_1\<close> updated or the plan column set.
\<close>

theorem upgrade_with_subscription:
  "stripe_subscription demo_org = Some ''sub_1'' \<and>
   upgrade (demo_config CamelKeys) demo_world ''o1'' ''pro'' ''monthly'' ''https://app'' =
     (Inr (CheckoutBody ''https://checkout.stripe.com/o1''),
      demo_world\<lparr>stripe_sessions :=
        [\<lparr>cs_mode = ''subscription'', cs_payment_method_types = [''card''],
          cs_client_reference_id = ''o1'', cs_customer = Str ''cus_1'',
          cs_metadata = [(''plan'', ''pro''), (''period'', ''monthly'')],
          cs_line_items = [(''price_1'', 1)],
          cs_success_url = ''https://app/billing/thank-you'',
          cs_cancel_url = ''https://app/billing''\<rparr>]\<rparr>) \<and>
   upgrade (demo_config SnakeKeys) demo_world ''o1'' ''pro'' ''monthly'' ''https://app'' =
     (Inl StripeError, demo_world)"
proof -
  have rows: "filter (\<lambda>r. org_id r = ''o1'') (org_table demo_world) = [demo_org]"
    by (simp add: demo_world_def demo_org_def)
  have sub: "stripe_subscription demo_org = Some ''sub_1''"
      "stripe_customer demo_org = Some ''cus_1''"
    by (simp_all add: demo_org_def)
  have camel:
    "upgrade (demo_config CamelKeys) demo_world ''o1'' ''pro'' ''monthly'' ''https://app'' =
     (Inr (CheckoutBody ''https://checkout.stripe.com/o1''),
      demo_world\<lparr>stripe_sessions :=
        [\<lparr>cs_mode = ''subscription'', cs_payment_method_types = [''card''],
          cs_client_reference_id = ''o1'', cs_customer = Str ''cus_1'',
          cs_metadata = [(''plan'', ''pro''), (''period'', ''monthly'')],
          cs_line_items = [(''price_1'', 1)],
          cs_success_url = ''https://app/billing/thank-you'',
          cs_cancel_url = ''https://app/billing''\<rparr>]\<rparr>)"
    by (simp add: upgrade_def demo_prices select_org_def rows demo_rows read_subscription_camel
        new_checkout_session_def row_object_def camel_keys js_get_def org_column_def sub
        nullable_str_def js_or_def inherited_plain)
       (simp add: demo_config_def demo_world_def)
  have snake:
    "upgrade (demo_config SnakeKeys) demo_world ''o1'' ''pro'' ''monthly'' ''https://app'' =
     (Inl StripeError, demo_world)"
    by (rule upgrade_snake_subscribed [where r = demo_org and rs = "[]" and s = "''sub_1''"])
       (simp_all add: demo_rows demo_prices rows sub)
  from sub camel snake show ?thesis by simp
qed

section \<open>The call strategy of the playground\<close>








section \<open>Template compilation and the variable map\<close>

lemma match_group_name:
  "plain_name x \<Longrightarrow> match_group (x @ ''}}'' @ rest) = Some (x, rest)"
proof (induction x)
  case Nil
  then show ?case by simp
next
  case (Cons c x)
  then have c: "c \<noteq> CHR ''}''" "\<not> line_terminator c" and x: "plain_name x"
    by (auto simp: plain_name_def)
  obtain d ds where tail: "x @ ''}}'' @ rest = d # ds"
    by (cases x) auto
  have ih: "match_group (d # ds) = Some (x, rest)"
    using Cons.IH [OF x] by (simp only: tail)
  have step: "match_group (c # d # ds) = Some (c # x, rest)"
    using c ih by simp
  have "(c # x) @ ''}}'' @ rest = c # d # ds"
    using tail by simp
  with step show ?case by (simp only:)
qed

lemma compile_text:
  "no_opening t \<Longrightarrow> compileTemplate (t @ s) variables = t @ compileTemplate s variables"
proof (induction t rule: no_opening.induct)
  case 1
  then show ?case by simp
next
  case (2 c)
  then show ?case by (cases s) simp_all
next
  case (3 c d cs)
  then show ?case by auto
qed

lemma map_of_variables:
  "map_of (variables_object variables) x = map_option Str (map_of variables x)"
  by (induction variables) (auto simp: variables_object_def)

lemma replacer_own:
  "own_name x \<Longrightarrow>
   replacer variables x = (case map_of variables x of Some v \<Rightarrow> v | None \<Rightarrow> [])"
  by (auto simp: replacer_def js_get_def map_of_variables own_name_def inherited_property_def
      js_or_def split: option.splits)

lemma compile_var:
  "plain_name x \<Longrightarrow>
   compileTemplate (''{{'' @ x @ ''}}'' @ rest) variables =
     replacer variables x @ compileTemplate rest variables"
  using match_group_name [of x rest] by simp

text \<open>
  For names that are the map's own, \<open>compileTemplate\<close> does what the specification
  asks: every token replaced by the map's value or by nothing, the text kept.
\<close>

lemma compileTemplate_substitutes:
  "well_formed ps \<Longrightarrow> compileTemplate (template_of ps) variables = substituted variables ps"
proof (induction ps rule: well_formed.induct)
  case 1
  then show ?case by simp
next
  case (2 t ps)
  then show ?case by (simp add: compile_text)
next
  case (3 x ps)
  then show ?case
    by (simp only: template_of.simps substituted.simps compile_var replacer_own
        well_formed.simps)
qed

text \<open>
  C5 at a token whose name the map has no entry for but every object inherits: the
  lookup \<^verbatim>\<open>variables[g1]\<close> finds \<^verbatim>\<open>Object.prototype.constructor\<close>, which is truthy, and
  the token is replaced by the text of that function, not by the empty string.
\<close>

theorem compileTemplate_inherited_name:
  "map_of [(''lang'', ''Java'')] ''constructor'' = None \<and>
   compileTemplate ''Write a {{constructor}} in {{lang}}'' [(''lang'', ''Java'')] =
     ''Write a function Object() { [native code] } in Java''"
  by code_simp

section \<open>Usage per day\<close>

lemma count_list_map: "count_list (map f xs) d = length (filter (\<lambda>x. f x = d) xs)"
  by (induction xs) auto

lemma group_fst: "map fst (group_count_desc ds) = rev (sort (remdups ds))"
  by (simp add: group_count_desc_def comp_def)

lemma group_sorted: "sorted (rev (map fst (group_count_desc ds)))"
  by (simp add: group_fst)

lemma group_distinct: "distinct (map fst (group_count_desc ds))"
  by (simp add: group_fst)

lemma group_member:
  "(d, c) \<in> set (group_count_desc ds) \<longleftrightarrow> 0 < c \<and> c = count_list ds d"
proof -
  have "(d, c) \<in> set (group_count_desc ds) \<longleftrightarrow> d \<in> set ds \<and> c = count_list ds d"
    by (auto simp: group_count_desc_def)
  moreover have "d \<in> set ds \<longleftrightarrow> 0 < count_list ds d"
    using count_list_0_iff [of ds d] by auto
  ultimately show ?thesis by auto
qed

lemma at_most_one_app:
  "distinct (map app_id apps) \<Longrightarrow>
   length (filter (\<lambda>a. k = app_id a \<and> P a) apps) \<le> 1"
proof (induction apps)
  case Nil
  then show ?case by simp
next
  case (Cons a apps)
  show ?case
  proof (cases "k = app_id a")
    case True
    with Cons.prems have "filter (\<lambda>b. k = app_id b \<and> P b) apps = []"
      by (auto simp: filter_empty_conv)
    then show ?thesis using True by simp
  next
    case False
    with Cons show ?thesis by simp
  qed
qed

text \<open>With \<^verbatim>\<open>id\<close> the key of \<^verbatim>\<open>app\<close>, the join keeps each run of the organization once.\<close>

lemma join_rows:
  assumes "distinct (map app_id apps)"
  shows "concat (map (\<lambda>r. map (\<lambda>a. r)
            (filter (\<lambda>a. run_app r = app_id a \<and> app_org_id a = orgId) apps)) runs) =
         filter (\<lambda>r. \<exists>a\<in>set apps. app_id a = run_app r \<and> app_org_id a = orgId) runs"
proof (induction runs)
  case Nil
  then show ?case by simp
next
  case (Cons r runs)
  let ?ys = "filter (\<lambda>a. run_app r = app_id a \<and> app_org_id a = orgId) apps"
  have "length ?ys \<le> 1"
    using assms by (rule at_most_one_app)
  then consider "?ys = []" | y where "?ys = [y]"
    by (cases ?ys) (auto simp: Suc_le_eq)
  then have "map (\<lambda>a. r) ?ys =
      (if \<exists>a\<in>set apps. app_id a = run_app r \<and> app_org_id a = orgId then [r] else [])"
  proof cases
    case 1
    then have "\<not> (\<exists>a\<in>set apps. app_id a = run_app r \<and> app_org_id a = orgId)"
      by (auto simp: filter_empty_conv)
    with 1 show ?thesis by simp
  next
    case 2
    then have "y \<in> set ?ys" by simp
    then have "\<exists>a\<in>set apps. app_id a = run_app r \<and> app_org_id a = orgId"
      by auto
    with 2 show ?thesis by simp
  qed
  with Cons show ?case by simp
qed

text \<open>
  C6, as the handler has it. \<^verbatim>\<open>GET /usage\<close> changes nothing and returns one row for each
  day that has a counted run, with the number of counted runs of that day, the days in
  descending order. A run is counted when it was created after the clock minus 30 days
  and, if \<^verbatim>\<open>projectId\<close> is given and not empty, its app is that project; if \<^verbatim>\<open>projectId\<close>
  is missing or empty, its app is an app of the organization. The ids of \<^verbatim>\<open>app\<close> are
  taken to be distinct, \<^verbatim>\<open>id\<close> being the key of the table.
\<close>

theorem get_usage_counts:
  assumes "distinct (map app_id (app_table w))"
  shows "get_usage cfg w orgId projectId =
           (Inr (UsageBody (usage_query cfg w orgId projectId)), w) \<and>
         sorted (rev (map fst (usage_query cfg w orgId projectId))) \<and>
         distinct (map fst (usage_query cfg w orgId projectId)) \<and>
         (\<forall>d c. (d, c) \<in> set (usage_query cfg w orgId projectId) \<longleftrightarrow>
            0 < c \<and>
            c = length (filter
                  (\<lambda>r. date_trunc_day (run_created_at r) = d \<and>
                       now cfg - 30 * day < run_created_at r \<and>
                       (case projectId of
                          Some p \<Rightarrow>
                            if p \<noteq> [] then run_app r = p
                            else \<exists>a\<in>set (app_table w).
                                   app_id a = run_app r \<and> app_org_id a = orgId
                        | None \<Rightarrow>
                            \<exists>a\<in>set (app_table w).
                              app_id a = run_app r \<and> app_org_id a = orgId))
                  (run_table w)))"
proof -
  let ?org = "\<lambda>r. \<exists>a\<in>set (app_table w). app_id a = run_app r \<and> app_org_id a = orgId"
  let ?sel = "\<lambda>r. now cfg - 30 * day < run_created_at r \<and>
      (case projectId of Some p \<Rightarrow> if p \<noteq> [] then run_app r = p else ?org r | None \<Rightarrow> ?org r)"
  have runs: "usage_runs cfg w orgId projectId = filter ?sel (run_table w)"
  proof (cases "projectId_given projectId")
    case True
    then obtain p where "projectId = Some p" "p \<noteq> []"
      by (auto simp: projectId_given_def split: option.splits)
    then show ?thesis
      by (auto simp: usage_runs_def projectId_given_def in_window_def intro: filter_cong)
  next
    case False
    then have sel: "?sel = (\<lambda>r. now cfg - 30 * day < run_created_at r \<and> ?org r)"
      by (auto simp: projectId_given_def split: option.splits)
    show ?thesis
      unfolding sel using False
      by (auto simp: usage_runs_def join_rows [OF assms] in_window_def intro: filter_cong)
  qed
  have count:
    "count_list (map (\<lambda>r. date_trunc_day (run_created_at r)) (filter ?sel (run_table w))) d =
     length (filter (\<lambda>r. date_trunc_day (run_created_at r) = d \<and> ?sel r) (run_table w))" for d
    by (simp add: count_list_map conj_commute)
  have member: "(d, c) \<in> set (usage_query cfg w orgId projectId) \<longleftrightarrow>
      0 < c \<and> c = length
        (filter (\<lambda>r. date_trunc_day (run_created_at r) = d \<and> ?sel r) (run_table w))" for d c
    unfolding usage_query_def runs group_member count ..
  show ?thesis
    using member
    by (simp add: get_usage_def usage_query_def group_sorted group_distinct)
qed


lemma usage_world_tables:
  "app_table usage_world =
     [\<lparr>app_id = ''a1'', app_created_at = 0, app_name = ''App'', app_org_id = ''o1''\<rparr>,
      \<lparr>app_id = ''a2'', app_created_at = 0, app_name = ''Other'', app_org_id = ''o9''\<rparr>]"
  "run_table usage_world =
     [\<lparr>run_app = ''a1'', run_created_at = 98 * day + 1\<rparr>,
      \<lparr>run_app = ''a1'', run_created_at = 99 * day + 5\<rparr>,
      \<lparr>run_app = ''a2'', run_created_at = 99 * day + 6\<rparr>,
      \<lparr>run_app = ''a1'', run_created_at = 99 * day + 7\<rparr>,
      \<lparr>run_app = ''a1'', run_created_at = 7\<rparr>]"
  by (simp_all add: usage_world_def)

lemma usage_world_org:
  "usage_query (demo_config ks) usage_world ''o1'' None = [(99 * day, 2), (98 * day, 1)]"
  "usage_query (demo_config ks) usage_world ''o1'' (Some []) = [(99 * day, 2), (98 * day, 1)]"
  "usage_query (demo_config ks) usage_world ''o1'' (Some ''a2'') = [(99 * day, 1)]"
  by (simp_all add: usage_query_def usage_runs_def projectId_given_def usage_world_tables
      in_window_def demo_config_def group_count_desc_def date_trunc_day_def day_def)

theorem get_usage_counts_witness:
  "distinct (map app_id (app_table usage_world)) \<and>
   get_usage (demo_config CamelKeys) usage_world ''o1'' None =
     (Inr (UsageBody [(99 * day, 2), (98 * day, 1)]), usage_world) \<and>
   get_usage (demo_config CamelKeys) usage_world ''o1'' (Some ''a2'') =
     (Inr (UsageBody [(99 * day, 1)]), usage_world)"
proof -
  have keys: "distinct (map app_id (app_table usage_world))"
    by (simp add: usage_world_tables)
  show ?thesis
    using get_usage_counts [OF keys, of "demo_config CamelKeys" "''o1''" None]
      get_usage_counts [OF keys, of "demo_config CamelKeys" "''o1''" "Some ''a2''"] keys
    by (simp add: usage_world_org)
qed

text \<open>
  C6 as stated fails for a parameter that is present and empty, \<^verbatim>\<open>GET /usage?projectId=\<close>:
  no run belongs to the project with the empty id, and the runs of the organization are
  counted.
\<close>

theorem get_usage_empty_projectId_counterexample:
  "filter (\<lambda>r. run_app r = []) (run_table usage_world) = [] \<and>
   fst (get_usage (demo_config CamelKeys) usage_world ''o1'' (Some [])) =
     Inr (UsageBody [(99 * day, 2), (98 * day, 1)])"
  by (simp add: get_usage_def usage_world_org usage_world_tables)

section \<open>The evaluation creation view: start button and model picker\<close>

lemma remove_bound: "length val \<le> n \<Longrightarrow> length (multiselect_remove val opt) \<le> n"
  unfolding multiselect_remove_def
  by (rule order_trans [OF length_filter_le])

lemma pick_bound: "length val \<le> n \<Longrightarrow> length (multiselect_pick n val opt) \<le> n"
  by (simp add: multiselect_pick_def remove_bound)

lemma view_step_bound: "length (models v) \<le> 3 \<Longrightarrow> length (models (view_step v e)) \<le> 3"
  by (cases e) (simp_all add: pick_bound remove_bound startEval_def)

lemma foldl_bound:
  "length (models v) \<le> 3 \<Longrightarrow> length (models (foldl view_step v evs)) \<le> 3"
  by (induction evs arbitrary: v) (simp_all add: view_step_bound)

lemma started_view_fields:
  "datasetId started_view = Some ''d1''"
  "checklistId started_view = Some ''c1''"
  "models started_view = [''gpt-4-turbo-preview'', ''gpt-3.5-turbo'']"
  "loading started_view = True"
  by (simp_all add: started_view_def view_after_def initial_view_def start_enabled_def
      button_disabled_def canStartEvaluation_def id_truthy_def startEval_def)

text \<open>
  C8, as the view has it. The button is enabled exactly when no evaluation is being
  started (\<open>loading\<close> is off), the dataset id and the checklist id are set (to a non-empty
  id) and the model list is not empty. Starting from the two preselected models,
  whatever happens in the view, at most three models are selected, and picking a further
  model when three are selected leaves the selection as it is.
\<close>

theorem start_enabled_and_model_limit:
  "(start_enabled v \<longleftrightarrow>
      \<not> loading v \<and>
      (\<exists>d. datasetId v = Some d \<and> d \<noteq> []) \<and> models v \<noteq> [] \<and>
      (\<exists>c. checklistId v = Some c \<and> c \<noteq> [])) \<and>
   length (models (view_after evs)) \<le> 3 \<and>
   (3 \<le> length (models v') \<and> m \<notin> set (models v') \<longrightarrow>
      models (view_step v' (ModelPick m)) = models v')"
proof -
  have "length (models initial_view) \<le> 3"
    by (simp add: initial_view_def)
  then have limit: "length (models (view_after evs)) \<le> 3"
    unfolding view_after_def by (rule foldl_bound)
  have enabled: "start_enabled v \<longleftrightarrow>
      \<not> loading v \<and>
      (\<exists>d. datasetId v = Some d \<and> d \<noteq> []) \<and> models v \<noteq> [] \<and>
      (\<exists>c. checklistId v = Some c \<and> c \<noteq> [])"
    by (auto simp: start_enabled_def button_disabled_def canStartEvaluation_def id_truthy_def
        split: option.splits)
  have rejected: "models (view_step v' (ModelPick m)) = models v'"
    if "3 \<le> length (models v')" "m \<notin> set (models v')"
    using that by (simp add: multiselect_pick_def)
  from limit enabled rejected show ?thesis by blast
qed

theorem start_enabled_and_model_limit_witness:
  "\<not> start_enabled initial_view \<and>
   start_enabled (view_after [DatasetChange (Some ''d1''), ChecklistChange (Some ''c1'')]) \<and>
   \<not> start_enabled started_view \<and>
   start_enabled (view_step started_view RequestDone) \<and>
   models (view_after [ModelPick ''claude-2'']) =
     [''gpt-4-turbo-preview'', ''gpt-3.5-turbo'', ''claude-2''] \<and>
   models (view_step (view_after [ModelPick ''claude-2'']) (ModelPick ''gemini-pro'')) =
     [''gpt-4-turbo-preview'', ''gpt-3.5-turbo'', ''claude-2'']"
  using start_enabled_and_model_limit [of initial_view "[]" "view_after [ModelPick ''claude-2'']"
      "''gemini-pro''"]
    start_enabled_and_model_limit
      [of "view_after [DatasetChange (Some ''d1''), ChecklistChange (Some ''c1'')]" "[]"
        initial_view "''x''"]
    start_enabled_and_model_limit [of started_view "[]" initial_view "''x''"]
    start_enabled_and_model_limit [of "view_step started_view RequestDone" "[]" initial_view "''x''"]
  by (simp add: started_view_fields)
     (simp add: view_after_def initial_view_def multiselect_pick_def)

text \<open>
  C8 as stated fails while an evaluation is being started: in the view reached by
  choosing a dataset and a checklist and clicking the button, a dataset, two models and
  a checklist are selected and the button is not enabled.
\<close>

theorem start_enabled_while_loading_counterexample:
  "datasetId started_view = Some ''d1'' \<and>
   models started_view = [''gpt-4-turbo-preview'', ''gpt-3.5-turbo''] \<and>
   checklistId started_view = Some ''c1'' \<and>
   \<not> start_enabled started_view"
  by (simp add: started_view_fields start_enabled_def button_disabled_def)

section \<open>The progress timer\<close>

lemma tick_le: "progress_tick te p \<le> 100"
  by (simp add: progress_tick_def)

lemma tick_ge: "0 \<le> p \<Longrightarrow> 0 \<le> progress_tick te p"
  by (simp add: progress_tick_def)

lemma ticks_bounds: "0 \<le> p \<Longrightarrow> p \<le> 100 \<Longrightarrow>
   0 \<le> (progress_tick te ^^ k) p \<and> (progress_tick te ^^ k) p \<le> 100"
  by (induction k) (simp_all add: tick_le tick_ge)

text \<open>
  C9. \<^verbatim>\<open>startEval\<close> sets the progress to 0 and keeps the estimate \<open>length models * 15\<close>.
  The progress shown starts at 0 and each run of the timer callback, once a second,
  takes it from \<open>p\<close> to \<open>progress_tick estimate p\<close>, which with a model selected is the
  smaller of 100 and \<open>p + 100 / estimate\<close>; after any number of runs the progress is
  between 0 and 100.
\<close>

theorem progress_timer:
  "snd (startEval v) = length (models v) * 15 \<and>
   progress (fst (startEval v)) = 0 \<and>
   progress_after v 0 = 0 \<and>
   progress_after v (Suc k) = progress_tick (snd (startEval v)) (progress_after v k) \<and>
   (models v \<noteq> [] \<longrightarrow>
      progress_tick (snd (startEval v)) p =
        min 100 (p + 100 / of_nat (length (models v) * 15))) \<and>
   (models v \<noteq> [] \<longrightarrow>
      progress_after v (Suc k) =
        min 100 (progress_after v k + 100 / of_nat (length (models v) * 15))) \<and>
   0 \<le> progress_after v k \<and> progress_after v k \<le> 100"
proof -
  have te: "snd (startEval v) = length (models v) * 15"
    by (simp add: startEval_def timeEstimate_def)
  have zero: "progress (fst (startEval v)) = 0"
    by (simp add: startEval_def)
  have start: "progress_after v 0 = 0"
    by (simp add: progress_after_def startEval_def)
  have step: "progress_after v (Suc k) =
      progress_tick (snd (startEval v)) (progress_after v k)"
    by (simp add: progress_after_def startEval_def)
  have tick: "progress_tick (snd (startEval v)) q =
      min 100 (q + 100 / of_nat (length (models v) * 15))" if "models v \<noteq> []" for q
    using that unfolding te by (simp add: progress_tick_def)
  have incr: "progress_after v (Suc k) =
      min 100 (progress_after v k + 100 / of_nat (length (models v) * 15))"
    if "models v \<noteq> []"
    unfolding step using that by (rule tick)
  have "progress_after v k = (progress_tick (timeEstimate (models v)) ^^ k) 0"
    by (simp add: progress_after_def startEval_def)
  then have bounds: "0 \<le> progress_after v k \<and> progress_after v k \<le> 100"
    using ticks_bounds [where p = 0 and te = "timeEstimate (models v)" and k = k] by simp
  from te zero start step tick [of p] incr bounds show ?thesis by blast
qed

theorem progress_timer_witness:
  "models initial_view \<noteq> [] \<and>
   snd (startEval initial_view) = 30 \<and>
   progress_tick (snd (startEval initial_view)) 0 = 100 / 30 \<and>
   progress_tick (snd (startEval initial_view)) 99 = 100 \<and>
   progress_after initial_view 0 = 0 \<and>
   progress_after initial_view 1 = 100 / 30 \<and>
   progress_after initial_view 3 = 10 \<and>
   progress_after initial_view 3 \<le> 100"
  using progress_timer [where v = initial_view and p = 0 and k = 3]
    progress_timer [where v = initial_view and p = 99 and k = 0]
  by (simp add: initial_view_def progress_after_def startEval_def timeEstimate_def
      progress_tick_def eval_nat_numeral)

end
